theory Spec2Isabelle
  imports Main "HOL-Library.AList" "HOL-Library.List_Lexorder" "HOL-Library.Multiset"
begin

section \<open>Data model\<close>

text \<open>
  A label volume is the 3D integer array \<open>y\<close> of \<open>utils.py\<close>: a list of frames, each a
  list of rows of pixel values; 0 is the background. A lineage is a Python dict from
  cell IDs to cell records; a dict iterates in insertion order and has one entry per
  key, so it is an association list, read with \<open>map_of\<close>. A cell record is the dict
  with the keys \<open>label\<close>, \<open>parent\<close>, \<open>daughters\<close> and \<open>frames\<close>; \<open>parent\<close> is
  \<open>None\<close> or an integer.
\<close>

type_synonym frame = "int list list"
type_synonym volume = "frame list"

record cell =
  label :: int
  parent :: "int option"
  daughters :: "int list"
  frames :: "int list"

type_synonym lineage = "(int \<times> cell) list"

datatype value_error =
  BadExtension | NotSingleLineage | NoLineageData | NegativeLabels | EmptyArray
  | NotAnArray | NotAnInteger

datatype error =
  ValueError value_error | IndexError | KeyError | TypeError | AttributeError
  | JSONDecodeError

section \<open>Reading a label volume\<close>

text \<open>The pixel values of a frame, and of the whole volume, in scan order.\<close>

definition frame_pixels :: "frame \<Rightarrow> int list" where
  "frame_pixels fr = concat fr"

definition pixels :: "volume \<Rightarrow> int list" where
  "pixels y = concat (map frame_pixels y)"

text \<open>\<open>np.unique(y)\<close>: the distinct pixel values in ascending order.\<close>

definition np_unique :: "volume \<Rightarrow> int list" where
  "np_unique y = sort (remdups (pixels y))"

text \<open>
  \<open>list(np.any(y == cell_id, axis=(1, 2)).nonzero()[0])\<close>: the indices of the frames
  in which \<open>cell_id\<close> is the value of some pixel, ascending.
\<close>

definition frames_of :: "volume \<Rightarrow> int \<Rightarrow> int list" where
  "frames_of y cell_id =
     map int (filter (\<lambda>f. cell_id \<in> set (frame_pixels (y ! f))) [0..<length y])"

section \<open>The lineage validator\<close>

text \<open>
  \<open>is_valid_lineage\<close>, lines 476 to 560. The working set \<open>all_cells\<close> starts as the
  non-zero values of \<open>np.unique(y)\<close> and loses each record's ID as the record is
  visited. Every \<open>return False\<close> is \<open>Inr False\<close>; the warnings are not modelled. The
  one access that no \<open>try\<close> guards, \<open>cell_lineage['frames'][-1]\<close> at line 510, raises
  IndexError on an empty list.
\<close>

text \<open>The loop over \<open>cell_lineage['daughters']\<close>, lines 512 to 529: True when no
  daughter makes the function return False.\<close>

fun daughters_ok :: "lineage \<Rightarrow> int set \<Rightarrow> int \<Rightarrow> int list \<Rightarrow> bool" where
  "daughters_ok lineage all_cells last_parent_frame [] = True"
| "daughters_ok lineage all_cells last_parent_frame (daughter # ds) =
     (if daughter \<notin> all_cells \<or> map_of lineage daughter = None then False
      else (case map_of lineage daughter of
              None \<Rightarrow> False
            | Some dl \<Rightarrow>
                (case frames dl of
                   [] \<Rightarrow> False
                 | first_daughter_frame # _ \<Rightarrow>
                     if first_daughter_frame - last_parent_frame \<noteq> 1 then False
                     else daughters_ok lineage all_cells last_parent_frame ds)))"

text \<open>The parent check, lines 532 to 553: \<open>if parent:\<close> is taken for an integer other
  than 0; a missing parent record (KeyError) and an empty frame list (IndexError) are
  caught and make the function return False.\<close>

definition parent_ok :: "lineage \<Rightarrow> cell \<Rightarrow> bool" where
  "parent_ok lineage cell_lineage =
     (case parent cell_lineage of
        None \<Rightarrow> True
      | Some p \<Rightarrow>
          if p = 0 then True
          else (case map_of lineage p of
                  None \<Rightarrow> False
                | Some parent_lineage \<Rightarrow>
                    if frames parent_lineage = [] \<or> frames cell_lineage = [] then False
                    else hd (frames cell_lineage) - last (frames parent_lineage) = 1))"

fun valid_loop :: "volume \<Rightarrow> lineage \<Rightarrow> int set \<Rightarrow> (int \<times> cell) list \<Rightarrow> error + bool" where
  "valid_loop y lineage all_cells [] = Inr (all_cells = {})"
| "valid_loop y lineage all_cells ((cell_label, cell_lineage) # rest) =
     (if cell_label \<notin> all_cells then Inr False
      else if frames_of y cell_label \<noteq> frames cell_lineage then Inr False
      else if frames cell_lineage = [] then Inl IndexError
      else if \<not> daughters_ok lineage (all_cells - {cell_label}) (last (frames cell_lineage))
                 (daughters cell_lineage) then Inr False
      else if \<not> parent_ok lineage cell_lineage then Inr False
      else valid_loop y lineage (all_cells - {cell_label}) rest)"

definition is_valid_lineage :: "volume \<Rightarrow> lineage \<Rightarrow> error + bool" where
  "is_valid_lineage y lineage =
     valid_loop y lineage (set (filter (\<lambda>c. c \<noteq> 0) (np_unique y))) lineage"

section \<open>The lineage relabeler\<close>

text \<open>
  Modelled from the spec: \<open>relabel_sequential\<close> is scikit-image's, not a function of
  this repository. Section 4.2 of the spec: every distinct non-zero value of the volume
  is mapped to a unique integer of \<open>1..K\<close> in a fixed order, 0 is mapped to 0, and a label
  that is absent from the image is mapped to 0 by the forward map. The order is the
  library's: ascending in the old label. The library refuses an array with a negative
  value and an array with no element (both ValueError). A volume is a NumPy array of
  integers, and the values that one integer type holds lie between \<open>-2^63\<close> and
  \<open>2^64 - 1\<close>; integers outside make an array of objects, which the library refuses
  with a TypeError once the two checks above have passed.
\<close>

definition fits_64 :: "int \<Rightarrow> bool" where
  "fits_64 index = (- (2 ^ 63) \<le> index \<and> index < 2 ^ 64)"

fun index_of :: "'a list \<Rightarrow> 'a \<Rightarrow> nat" where
  "index_of [] v = 0"
| "index_of (x # xs) v = (if x = v then 0 else Suc (index_of xs v))"

definition cell_ids_of :: "volume \<Rightarrow> int list" where
  "cell_ids_of y = filter (\<lambda>c. c \<noteq> 0) (np_unique y)"

text \<open>The forward map on the values of the array itself: \<open>fw[cell_id]\<close> for a
  \<open>cell_id\<close> taken from \<open>np.unique(y)\<close>, which has the array's own integer type.\<close>

definition forward_map :: "volume \<Rightarrow> int \<Rightarrow> int" where
  "forward_map y v =
     (if v \<in> set (cell_ids_of y) then 1 + int (index_of (cell_ids_of y) v) else 0)"

definition relabel_sequential :: "volume \<Rightarrow> error + volume \<times> (int \<Rightarrow> int)" where
  "relabel_sequential y =
     (if pixels y = [] then Inl (ValueError EmptyArray)
      else if list_ex (\<lambda>p. p < 0) (pixels y) then Inl (ValueError NegativeLabels)
      else if list_ex (\<lambda>p. \<not> fits_64 p) (pixels y) then Inl TypeError
      else Inr (map (map (map (forward_map y))) y, forward_map y))"

text \<open>
  \<open>fw[index]\<close> for a Python integer, which is what a \<open>parent\<close> and a daughter of a
  lineage record are. The library puts the index into a NumPy array first: an integer
  from \<open>-2^63\<close> to \<open>2^63 - 1\<close> becomes an \<open>int64\<close> and the labels are cast to \<open>int64\<close>
  before they are compared, so that a label from \<open>2^63\<close> on (in an unsigned 64-bit
  volume) is met by the negative index it wraps to; an integer from \<open>2^63\<close> to
  \<open>2^64 - 1\<close> becomes a \<open>uint64\<close> and is compared as it is; any other integer gives an
  array of objects, which the library refuses with a TypeError.
\<close>

definition getitem_int :: "(int \<Rightarrow> int) \<Rightarrow> int \<Rightarrow> error + int" where
  "getitem_int fw index =
     (if \<not> fits_64 index then Inl TypeError
      else if index < 0 then Inr (fw (index + 2 ^ 64))
      else Inr (fw index))"

text \<open>
  \<open>relabel_sequential_lineage\<close>, lines 427 to 473. The loop runs over the non-zero
  values of \<open>np.unique(y)\<close>; \<open>lineage[cell_id]\<close> raises KeyError for an ID with no
  record; then the parent, when it is not \<open>None\<close>, and the daughters in their order go
  through the forward map; a daughter whose new ID is 0 is dropped (with a warning, not
  modelled); the frames are those of \<open>cell_id\<close> in \<open>y\<close>. Storing under
  \<open>new_lineage[new_cell_id]\<close> replaces an entry with that key or appends one.
\<close>

fun relabel_parent :: "(int \<Rightarrow> int) \<Rightarrow> int option \<Rightarrow> error + int option" where
  "relabel_parent fw None = Inr None"
| "relabel_parent fw (Some p) =
     (case getitem_int fw p of Inl e \<Rightarrow> Inl e | Inr new_parent \<Rightarrow> Inr (Some new_parent))"

fun relabel_daughters :: "(int \<Rightarrow> int) \<Rightarrow> int list \<Rightarrow> error + int list" where
  "relabel_daughters fw [] = Inr []"
| "relabel_daughters fw (d # ds) =
     (case getitem_int fw d of
        Inl e \<Rightarrow> Inl e
      | Inr new_daughter \<Rightarrow>
          (case relabel_daughters fw ds of
             Inl e \<Rightarrow> Inl e
           | Inr new_daughters \<Rightarrow>
               Inr (if new_daughter = 0 then new_daughters else new_daughter # new_daughters)))"

fun relabel_loop ::
  "volume \<Rightarrow> lineage \<Rightarrow> (int \<Rightarrow> int) \<Rightarrow> int list \<Rightarrow> lineage \<Rightarrow> error + lineage" where
  "relabel_loop y lineage fw [] new_lineage = Inr new_lineage"
| "relabel_loop y lineage fw (cell_id # cell_ids) new_lineage =
     (case map_of lineage cell_id of
        None \<Rightarrow> Inl KeyError
      | Some cell_lineage \<Rightarrow>
          (case relabel_parent fw (parent cell_lineage) of
             Inl e \<Rightarrow> Inl e
           | Inr new_parent \<Rightarrow>
               (case relabel_daughters fw (daughters cell_lineage) of
                  Inl e \<Rightarrow> Inl e
                | Inr new_daughters \<Rightarrow>
                    relabel_loop y lineage fw cell_ids
                      (AList.update (fw cell_id)
                         \<lparr>label = fw cell_id, parent = new_parent,
                          daughters = new_daughters, frames = frames_of y cell_id\<rparr>
                         new_lineage))))"

definition relabel_sequential_lineage :: "volume \<Rightarrow> lineage \<Rightarrow> error + volume \<times> lineage" where
  "relabel_sequential_lineage y lineage =
     (case relabel_sequential y of
        Inl e \<Rightarrow> Inl e
      | Inr (y_relabel, fw) \<Rightarrow>
          (case relabel_loop y lineage fw (cell_ids_of y) [] of
             Inl e \<Rightarrow> Inl e
           | Inr new_lineage \<Rightarrow> Inr (y_relabel, new_lineage)))"

text \<open>The parents and the daughters that the records of a lineage name are 64-bit
  integers.\<close>

definition refs_fit_64 :: "lineage \<Rightarrow> bool" where
  "refs_fit_64 lineage =
     list_all (\<lambda>(k, r). (case parent r of None \<Rightarrow> True | Some p \<Rightarrow> fits_64 p)
                        \<and> list_all fits_64 (daughters r)) lineage"

section \<open>Python values and JSON documents\<close>

text \<open>
  The codec handles the lineage as a dynamically typed Python value: \<open>save_trk\<close> asks
  whether it is a list, \<open>json.dump\<close> walks it, \<open>load_trks\<close> asks again whether the
  decoded value is a list and calls \<open>items()\<close> on each element. A dict is the list of its
  items in insertion order.
\<close>

datatype pyval =
  PNone | PInt int | PStr string | PList "pyval list" | PDict "(pyval \<times> pyval) list"

text \<open>A JSON document, as the text written by \<open>json.dump\<close> and read by \<open>json.loads\<close>
  denotes it: an object is the sequence of its members, keys repeated or not.\<close>

datatype json =
  JNull | JNum int | JStr string | JArr "json list" | JObj "(string \<times> json) list"

subsection \<open>Integers as text\<close>

text \<open>\<open>str(i)\<close> for an integer: the decimal digits, after a minus sign when negative.
  Integers are unbounded, and the resource limits of the interpreter are not modelled:
  neither the memory nor the cap on the number of digits of a conversion between an
  integer and text (4300 by default from Python 3.11 on).\<close>

definition digit_char :: "nat \<Rightarrow> char" where
  "digit_char d = char_of (48 + d)"

fun digits :: "nat \<Rightarrow> string" where
  "digits n = (if n < 10 then [digit_char n] else digits (n div 10) @ [digit_char (n mod 10)])"

declare digits.simps [simp del]

definition py_str_int :: "int \<Rightarrow> string" where
  "py_str_int i = (if i < 0 then CHR ''-'' # digits (nat (- i)) else digits (nat i))"

text \<open>
  \<open>int(s)\<close> for a string: white space is stripped at both ends, one sign may lead, and
  the rest is decimal digits, single underscores allowed between two digits; anything
  else is a ValueError. A character of the codec is a code point below 256. Among
  these the decimal digits are 0 to 9, and the white space that \<open>int\<close> strips is the
  tab, the line feed, the vertical tab, the form feed, the carriage return and the
  space, and also the next-line character (133) and the no-break space (160), which
  \<open>int\<close> replaces by spaces first; the separators 28 to 31 are not stripped.
\<close>

definition is_digit :: "char \<Rightarrow> bool" where
  "is_digit c = (48 \<le> (of_char c :: nat) \<and> (of_char c :: nat) \<le> 57)"

definition digit_val :: "char \<Rightarrow> nat" where
  "digit_val c = of_char c - 48"

definition is_space :: "char \<Rightarrow> bool" where
  "is_space c = ((9 \<le> (of_char c :: nat) \<and> (of_char c :: nat) \<le> 13)
                 \<or> (of_char c :: nat) = 32 \<or> (of_char c :: nat) = 133
                 \<or> (of_char c :: nat) = 160)"

definition strip :: "string \<Rightarrow> string" where
  "strip s = rev (dropWhile is_space (rev (dropWhile is_space s)))"

fun parse_digits :: "nat \<Rightarrow> string \<Rightarrow> nat option" where
  "parse_digits acc [] = Some acc"
| "parse_digits acc (c # cs) =
     (if is_digit c then parse_digits (10 * acc + digit_val c) cs
      else if c = CHR ''_'' \<and> cs \<noteq> [] \<and> is_digit (hd cs) then parse_digits acc cs
      else None)"

definition parse_nat :: "string \<Rightarrow> nat option" where
  "parse_nat s = (if s \<noteq> [] \<and> is_digit (hd s) then parse_digits 0 s else None)"

definition py_int :: "string \<Rightarrow> error + int" where
  "py_int s =
     (case strip s of
        [] \<Rightarrow> Inl (ValueError NotAnInteger)
      | c # cs \<Rightarrow>
          (case (if c = CHR ''-'' then map_option (\<lambda>n. - int n) (parse_nat cs)
                 else if c = CHR ''+'' then map_option int (parse_nat cs)
                 else map_option int (parse_nat (c # cs))) of
             None \<Rightarrow> Inl (ValueError NotAnInteger)
           | Some i \<Rightarrow> Inr i))"

text \<open>\<open>int(k)\<close> for a Python value: an integer is itself, a string is parsed, and
  \<open>None\<close>, a list and a dict are a TypeError.\<close>

fun py_int_of :: "pyval \<Rightarrow> error + int" where
  "py_int_of (PInt i) = Inr i"
| "py_int_of (PStr s) = py_int s"
| "py_int_of PNone = Inl TypeError"
| "py_int_of (PList xs) = Inl TypeError"
| "py_int_of (PDict kvs) = Inl TypeError"

subsection \<open>Dicts\<close>

text \<open>Building a dict from a sequence of items, as a dict comprehension and the JSON
  decoder do: a repeated key keeps its first place and takes the last value.\<close>

definition dict_of_items :: "('k \<times> 'v) list \<Rightarrow> ('k \<times> 'v) list" where
  "dict_of_items kvs = foldl (\<lambda>d (k, v). AList.update k v d) [] kvs"

subsection \<open>\<open>json.dump\<close> and \<open>json.loads\<close>\<close>

text \<open>The key of an object member: a string key is itself, an integer key is its
  \<open>str\<close>, \<open>None\<close> is \<open>null\<close>, and a list or a dict as a key is a TypeError.\<close>

fun json_key :: "pyval \<Rightarrow> error + string" where
  "json_key (PStr s) = Inr s"
| "json_key (PInt i) = Inr (py_str_int i)"
| "json_key PNone = Inr ''null''"
| "json_key (PList xs) = Inl TypeError"
| "json_key (PDict kvs) = Inl TypeError"

fun json_encode :: "pyval \<Rightarrow> error + json"
  and json_encode_list :: "pyval list \<Rightarrow> error + json list"
  and json_encode_items :: "(pyval \<times> pyval) list \<Rightarrow> error + (string \<times> json) list" where
  "json_encode PNone = Inr JNull"
| "json_encode (PInt i) = Inr (JNum i)"
| "json_encode (PStr s) = Inr (JStr s)"
| "json_encode (PList xs) =
     (case json_encode_list xs of Inl e \<Rightarrow> Inl e | Inr js \<Rightarrow> Inr (JArr js))"
| "json_encode (PDict kvs) =
     (case json_encode_items kvs of Inl e \<Rightarrow> Inl e | Inr ms \<Rightarrow> Inr (JObj ms))"
| "json_encode_list [] = Inr []"
| "json_encode_list (x # xs) =
     (case json_encode x of
        Inl e \<Rightarrow> Inl e
      | Inr j \<Rightarrow> (case json_encode_list xs of Inl e \<Rightarrow> Inl e | Inr js \<Rightarrow> Inr (j # js)))"
| "json_encode_items [] = Inr []"
| "json_encode_items ((k, v) # kvs) =
     (case json_key k of
        Inl e \<Rightarrow> Inl e
      | Inr s \<Rightarrow>
          (case json_encode v of
             Inl e \<Rightarrow> Inl e
           | Inr j \<Rightarrow>
               (case json_encode_items kvs of
                  Inl e \<Rightarrow> Inl e
                | Inr ms \<Rightarrow> Inr ((s, j) # ms))))"

fun json_decode :: "json \<Rightarrow> pyval"
  and json_decode_list :: "json list \<Rightarrow> pyval list"
  and json_decode_items :: "(string \<times> json) list \<Rightarrow> (pyval \<times> pyval) list" where
  "json_decode JNull = PNone"
| "json_decode (JNum i) = PInt i"
| "json_decode (JStr s) = PStr s"
| "json_decode (JArr js) = PList (json_decode_list js)"
| "json_decode (JObj ms) = PDict (dict_of_items (json_decode_items ms))"
| "json_decode_list [] = []"
| "json_decode_list (j # js) = json_decode j # json_decode_list js"
| "json_decode_items [] = []"
| "json_decode_items ((s, j) # ms) = (PStr s, json_decode j) # json_decode_items ms"

section \<open>The track container codec\<close>

text \<open>
  An archive is the sequence of its named entries, in the order \<open>trks.add\<close> wrote them.
  The bytes of an entry are represented by what they decode to: an array for the bytes
  \<open>np.save\<close> writes and \<open>np.load\<close> reads back, a JSON document for JSON text, and
  \<open>OtherBlob\<close> for bytes that are neither. The gzip and tar layers and the temporary
  files are not modelled: saving returns the archive it writes, loading takes the
  archive it opens.
\<close>

datatype 'a blob = NpyBlob 'a | JsonBlob json | OtherBlob

type_synonym 'a archive = "(string \<times> 'a blob) list"

datatype target = Path string | BytesIO

record 'a trks_data =
  trks_lineages :: "pyval list"
  trks_X :: 'a
  trks_y :: 'a

text \<open>\<open>trks.getmember(name)\<close>: the last entry of that name, KeyError when there is none.\<close>

definition getmember :: "'a archive \<Rightarrow> string \<Rightarrow> error + 'a blob" where
  "getmember trks name =
     (case map_of (rev trks) name of None \<Rightarrow> Inl KeyError | Some b \<Rightarrow> Inr b)"

fun np_load :: "'a blob \<Rightarrow> error + 'a" where
  "np_load (NpyBlob a) = Inr a"
| "np_load (JsonBlob j) = Inl (ValueError NotAnArray)"
| "np_load OtherBlob = Inl (ValueError NotAnArray)"

fun json_loads :: "'a blob \<Rightarrow> error + pyval" where
  "json_loads (JsonBlob j) = Inr (json_decode j)"
| "json_loads (NpyBlob a) = Inl JSONDecodeError"
| "json_loads OtherBlob = Inl JSONDecodeError"

subsection \<open>\<open>load_trks\<close>, lines 132 to 176\<close>

text \<open>\<open>{int(k): v for k, v in tracks.items()}\<close>: AttributeError when \<open>tracks\<close> is not a
  dict, and the error of \<open>int(k)\<close> at the first key that is not an integer.\<close>

fun rekey_items :: "(pyval \<times> pyval) list \<Rightarrow> error + (pyval \<times> pyval) list" where
  "rekey_items [] = Inr []"
| "rekey_items ((k, v) # kvs) =
     (case py_int_of k of
        Inl e \<Rightarrow> Inl e
      | Inr i \<Rightarrow>
          (case rekey_items kvs of Inl e \<Rightarrow> Inl e | Inr r \<Rightarrow> Inr ((PInt i, v) # r)))"

fun rekey :: "pyval \<Rightarrow> error + pyval" where
  "rekey (PDict kvs) =
     (case rekey_items kvs of Inl e \<Rightarrow> Inl e | Inr r \<Rightarrow> Inr (PDict (dict_of_items r)))"
| "rekey PNone = Inl AttributeError"
| "rekey (PInt i) = Inl AttributeError"
| "rekey (PStr s) = Inl AttributeError"
| "rekey (PList xs) = Inl AttributeError"

text \<open>The loop of lines 173 and 174 over the list of lineages.\<close>

fun rekey_all :: "pyval list \<Rightarrow> error + pyval list" where
  "rekey_all [] = Inr []"
| "rekey_all (tracks # rest) =
     (case rekey tracks of
        Inl e \<Rightarrow> Inl e
      | Inr t \<Rightarrow> (case rekey_all rest of Inl e \<Rightarrow> Inl e | Inr ts \<Rightarrow> Inr (t # ts)))"

text \<open>Lines 169 to 174: decode the lineage entry, wrap a value that is not a list in
  a list, and turn the keys of every lineage back into integers.\<close>

definition decode_lineages :: "'a blob \<Rightarrow> error + pyval list" where
  "decode_lineages trk_data =
     (case json_loads trk_data of
        Inl e \<Rightarrow> Inl e
      | Inr lineages \<Rightarrow>
          rekey_all (case lineages of PList ls \<Rightarrow> ls | _ \<Rightarrow> [lineages]))"

text \<open>Lines 161 to 167: \<open>lineages.json\<close> is tried first, \<open>lineage.json\<close> second.\<close>

definition lineage_member :: "'a archive \<Rightarrow> error + 'a blob" where
  "lineage_member trks =
     (case getmember trks ''lineages.json'' of
        Inr trk_data \<Rightarrow> Inr trk_data
      | Inl e \<Rightarrow>
          (case getmember trks ''lineage.json'' of
             Inr trk_data \<Rightarrow> Inr trk_data
           | Inl e' \<Rightarrow> Inl (ValueError NoLineageData)))"

definition load_trks :: "'a archive \<Rightarrow> error + 'a trks_data" where
  "load_trks trks =
     (case getmember trks ''raw.npy'' of
        Inl e \<Rightarrow> Inl e
      | Inr raw_blob \<Rightarrow>
     (case np_load raw_blob of
        Inl e \<Rightarrow> Inl e
      | Inr raw \<Rightarrow>
     (case getmember trks ''tracked.npy'' of
        Inl e \<Rightarrow> Inl e
      | Inr tracked_blob \<Rightarrow>
     (case np_load tracked_blob of
        Inl e \<Rightarrow> Inl e
      | Inr tracked \<Rightarrow>
     (case lineage_member trks of
        Inl e \<Rightarrow> Inl e
      | Inr trk_data \<Rightarrow>
     (case decode_lineages trk_data of
        Inl e \<Rightarrow> Inl e
      | Inr lineages \<Rightarrow>
          Inr \<lparr>trks_lineages = lineages, trks_X = raw, trks_y = tracked\<rparr>))))))"

subsection \<open>The save path, lines 206 to 303\<close>

text \<open>
  \<open>save_track_data\<close>: the lineage entry under \<open>lineage_name\<close>, then \<open>raw.npy\<close>,
  then \<open>tracked.npy\<close>. The target receives the archive and plays no other part:
  \<open>tarfile.open\<close> is taken to open it. A file name that the operating system refuses
  to open for writing (an OSError, or the ValueError for a name with a NUL character)
  is outside this model of the save path; no such error is the ValueError of the
  extension check.
\<close>

definition save_track_data ::
  "target \<Rightarrow> pyval \<Rightarrow> 'a \<Rightarrow> 'a \<Rightarrow> string \<Rightarrow> error + 'a archive" where
  "save_track_data filename lineages raw tracked lineage_name =
     (case json_encode lineages of
        Inl e \<Rightarrow> Inl e
      | Inr doc \<Rightarrow>
          Inr [(lineage_name, JsonBlob doc), (''raw.npy'', NpyBlob raw),
               (''tracked.npy'', NpyBlob tracked)])"

text \<open>
  \<open>os.path.splitext(p)[-1]\<close> (posixpath): the text from the last dot on, when that dot
  comes after the last slash and some character between the slash and the dot is not
  a dot; the empty string otherwise.
\<close>

definition rfind :: "string \<Rightarrow> char \<Rightarrow> int" where
  "rfind p c =
     (case filter (\<lambda>i. p ! i = c) (rev [0..<length p]) of [] \<Rightarrow> - 1 | i # _ \<Rightarrow> int i)"

definition splitext_ext :: "string \<Rightarrow> string" where
  "splitext_ext p =
     (let sepIndex = rfind p CHR ''/''; dotIndex = rfind p CHR ''.''
      in if dotIndex > sepIndex
            \<and> list_ex (\<lambda>i. p ! i \<noteq> CHR ''.'') [nat (sepIndex + 1)..<nat dotIndex]
         then drop (nat dotIndex) p else [])"

text \<open>\<open>save_trks\<close>: the extension is compared only for a target that is not a
  BytesIO (\<open>not isinstance(filename, io.BytesIO) and ext != '.trks'\<close>).\<close>

definition save_trks :: "target \<Rightarrow> pyval \<Rightarrow> 'a \<Rightarrow> 'a \<Rightarrow> error + 'a archive" where
  "save_trks filename lineages raw tracked =
     (if (case filename of Path p \<Rightarrow> splitext_ext p \<noteq> ''.trks'' | BytesIO \<Rightarrow> False)
      then Inl (ValueError BadExtension)
      else save_track_data filename lineages raw tracked ''lineages.json'')"

text \<open>\<open>save_trk\<close>: after the same check against \<open>.trk\<close>, a list of more than one
  element is a ValueError and any other list is replaced by its first element,
  \<open>lineage[0]\<close>, which raises IndexError on the empty list.\<close>

definition single_lineage :: "pyval \<Rightarrow> error + pyval" where
  "single_lineage lineage =
     (case lineage of
        PList ls \<Rightarrow>
          if length ls > 1 then Inl (ValueError NotSingleLineage)
          else (case ls of [] \<Rightarrow> Inl IndexError | l # _ \<Rightarrow> Inr l)
      | _ \<Rightarrow> Inr lineage)"

definition save_trk :: "target \<Rightarrow> pyval \<Rightarrow> 'a \<Rightarrow> 'a \<Rightarrow> error + 'a archive" where
  "save_trk filename lineage raw tracked =
     (if (case filename of Path p \<Rightarrow> splitext_ext p \<noteq> ''.trk'' | BytesIO \<Rightarrow> False)
      then Inl (ValueError BadExtension)
      else (case single_lineage lineage of
              Inl e \<Rightarrow> Inl e
            | Inr l \<Rightarrow> save_track_data filename l raw tracked ''lineage.json''))"

subsection \<open>The lineages of the data model, as Python values\<close>

text \<open>
  A lineage as the codec receives it: a dict (no key twice) whose keys are integers
  and whose values are records; a record is a dict with string keys whose values are
  an integer, \<open>None\<close> or a list of integers.
\<close>

fun is_int :: "pyval \<Rightarrow> bool" where
  "is_int (PInt i) = True"
| "is_int PNone = False"
| "is_int (PStr s) = False"
| "is_int (PList xs) = False"
| "is_int (PDict kvs) = False"

fun is_str :: "pyval \<Rightarrow> bool" where
  "is_str (PStr s) = True"
| "is_str PNone = False"
| "is_str (PInt i) = False"
| "is_str (PList xs) = False"
| "is_str (PDict kvs) = False"

fun plain_value :: "pyval \<Rightarrow> bool" where
  "plain_value PNone = True"
| "plain_value (PInt i) = True"
| "plain_value (PList xs) = list_all is_int xs"
| "plain_value (PStr s) = False"
| "plain_value (PDict kvs) = False"

fun plain_record :: "pyval \<Rightarrow> bool" where
  "plain_record (PDict kvs) =
     (distinct (map fst kvs) \<and> list_all (\<lambda>(k, v). is_str k \<and> plain_value v) kvs)"
| "plain_record PNone = False"
| "plain_record (PInt i) = False"
| "plain_record (PStr s) = False"
| "plain_record (PList xs) = False"

fun is_lineage :: "pyval \<Rightarrow> bool" where
  "is_lineage (PDict kvs) =
     (distinct (map fst kvs) \<and> list_all (\<lambda>(k, r). is_int k \<and> plain_record r) kvs)"
| "is_lineage PNone = False"
| "is_lineage (PInt i) = False"
| "is_lineage (PStr s) = False"
| "is_lineage (PList xs) = False"

section \<open>The batch importer: the order of the files\<close>

text \<open>
  Lines 190 to 193 of \<open>trk_folder_to_trks\<close>. A file name is a Python \<open>str\<close>, a
  sequence of Unicode code points. The code points are integers here and not the 8-bit
  characters of the codec above: what \<open>str.isdigit()\<close> and \<open>int()\<close> accept beyond
  ASCII decides whether the sort raises.
\<close>

type_synonym ustr = "int list"











text \<open>An element of a sort key is an integer or a string.\<close>

datatype token = Num int | Text ustr









text \<open>
  The order of the keys as a linear order, for the proofs: where no comparison raises,
  the sort above is the library's stable sort by this order. Between an integer and a
  string, where Python raises, the order puts the integer first.
\<close>

instantiation token :: linorder
begin

fun less_eq_token :: "token \<Rightarrow> token \<Rightarrow> bool" where
  "less_eq_token (Num a) (Num b) = (a \<le> b)"
| "less_eq_token (Text a) (Text b) = (a \<le> b)"
| "less_eq_token (Num a) (Text b) = True"
| "less_eq_token (Text a) (Num b) = False"

definition less_token :: "token \<Rightarrow> token \<Rightarrow> bool" where
  "less_token a b = (a \<le> b \<and> \<not> b \<le> a)"

instance
proof
  fix x y z :: token
  show "(x < y) = (x \<le> y \<and> \<not> y \<le> x)"
    by (simp add: less_token_def)
  show "x \<le> x"
    by (cases x) auto
  show "x \<le> y \<Longrightarrow> y \<le> z \<Longrightarrow> x \<le> z"
    by (cases x; cases y; cases z) auto
  show "x \<le> y \<Longrightarrow> y \<le> x \<Longrightarrow> x = y"
    by (cases x; cases y) auto
  show "x \<le> y \<or> y \<le> x"
    by (cases x; cases y) auto
qed

end




section \<open>Volumes and lineages of the examples\<close>

text \<open>Two frames of one pixel: cell 1 in frame 0, cell 2 in frame 1.\<close>

definition y_division :: volume where
  "y_division = [[[1]], [[2]]]"

definition mother :: cell where
  "mother = \<lparr>label = 1, parent = None, daughters = [2], frames = [0]\<rparr>"

definition daughter2 :: cell where
  "daughter2 = \<lparr>label = 2, parent = Some 1, daughters = [], frames = [1]\<rparr>"

text \<open>One frame of one pixel, cell 1, whose record names the parent 0.\<close>

definition y_single :: volume where
  "y_single = [[[1]]]"

definition cell_parent0 :: cell where
  "cell_parent0 = \<lparr>label = 1, parent = Some 0, daughters = [], frames = [0]\<rparr>"

definition cell_parent5 :: cell where
  "cell_parent5 = \<lparr>label = 1, parent = Some 5, daughters = [], frames = [0]\<rparr>"

text \<open>Two frames with the labels 5 and 9; the record of 5 has a stale frame list and a
  daughter 7 that is not in the image.\<close>

definition y_gap :: volume where
  "y_gap = [[[0, 5]], [[5, 9]]]"

definition lineage_gap :: lineage where
  "lineage_gap =
     [(5, \<lparr>label = 5, parent = None, daughters = [9, 7], frames = [3]\<rparr>),
      (9, \<lparr>label = 9, parent = Some 5, daughters = [], frames = [1]\<rparr>)]"

text \<open>One frame with the cells 1 and 2, and a lineage with a record for cell 1 only.\<close>

definition y_two :: volume where
  "y_two = [[[1, 2]]]"

definition lineage_one :: lineage where
  "lineage_one = [(1, \<lparr>label = 1, parent = None, daughters = [], frames = [0]\<rparr>)]"

text \<open>A volume whose one value is negative, with a record for it; a volume with the
  cell 3, whose record names the parent \<open>2^64\<close>; and a volume whose one value is
  \<open>2^64\<close>, with a record for it.\<close>

definition y_negative :: volume where
  "y_negative = [[[- 1]]]"

definition lineage_negative :: lineage where
  "lineage_negative = [(- 1, \<lparr>label = - 1, parent = None, daughters = [], frames = [0]\<rparr>)]"

definition y_three :: volume where
  "y_three = [[[3]]]"

definition lineage_far_parent :: lineage where
  "lineage_far_parent =
     [(3, \<lparr>label = 3, parent = Some 18446744073709551616, daughters = [], frames = [0]\<rparr>)]"

definition y_far :: volume where
  "y_far = [[[18446744073709551616]]]"

definition lineage_far :: lineage where
  "lineage_far =
     [(18446744073709551616,
       \<lparr>label = 18446744073709551616, parent = None, daughters = [], frames = [0]\<rparr>)]"

text \<open>The lineage of the division example as the Python value the codec handles.\<close>

definition py_cell :: "cell \<Rightarrow> pyval" where
  "py_cell r =
     PDict [(PStr ''label'', PInt (label r)),
            (PStr ''parent'', (case parent r of None \<Rightarrow> PNone | Some p \<Rightarrow> PInt p)),
            (PStr ''daughters'', PList (map PInt (daughters r))),
            (PStr ''frames'', PList (map PInt (frames r)))]"

definition py_lineage :: "lineage \<Rightarrow> pyval" where
  "py_lineage lin = PDict (map (\<lambda>(k, r). (PInt k, py_cell r)) lin)"

definition lineage_division :: pyval where
  "lineage_division = py_lineage [(1, mother), (2, daughter2), (-10, daughter2)]"

text \<open>An archive with both lineage entries, each naming a different cell, and the
  same archive without the batch entry.\<close>

definition archive_single :: "volume archive" where
  "archive_single =
     [(''lineage.json'', JsonBlob (JObj [(''1'', JObj [])])),
      (''raw.npy'', NpyBlob y_single), (''tracked.npy'', NpyBlob y_single)]"

definition archive_both :: "volume archive" where
  "archive_both = archive_single @ [(''lineages.json'', JsonBlob (JArr [JObj [(''2'', JObj [])]]))]"

definition archive_arrays :: "volume archive" where
  "archive_arrays = [(''raw.npy'', NpyBlob y_single), (''tracked.npy'', NpyBlob y_single)]"





section \<open>Properties of the validator\<close>

lemma frames_of_nonempty:
  assumes "c \<in> set (pixels y)"
  shows "frames_of y c \<noteq> []"
proof -
  from assms obtain fr where fr: "fr \<in> set y" "c \<in> set (frame_pixels fr)"
    by (auto simp: pixels_def)
  then obtain i where "i < length y" "y ! i = fr"
    by (auto simp: in_set_conv_nth)
  with fr have "filter (\<lambda>f. c \<in> set (frame_pixels (y ! f))) [0..<length y] \<noteq> []"
    by (auto simp: filter_empty_conv)
  then show ?thesis by (simp add: frames_of_def)
qed

lemma valid_loop_returns:
  assumes "all_cells \<subseteq> set (pixels y)"
  shows "\<exists>b. valid_loop y lineage all_cells recs = Inr b"
  using assms
proof (induction recs arbitrary: all_cells)
  case Nil
  then show ?case by simp
next
  case (Cons rec recs)
  obtain cell_label cell_lineage where rec: "rec = (cell_label, cell_lineage)"
    by (cases rec)
  have sub: "all_cells - {cell_label} \<subseteq> set (pixels y)"
    using Cons.prems by auto
  have ne: "cell_label \<in> all_cells \<Longrightarrow> frames_of y cell_label \<noteq> []"
    using Cons.prems frames_of_nonempty by auto
  show ?case
    using Cons.IH [OF sub] ne by (auto simp: rec)
qed

lemma all_cells_pixels: "set (filter (\<lambda>c. c \<noteq> 0) (np_unique y)) \<subseteq> set (pixels y)"
  by (auto simp: np_unique_def)

lemma valid_loop_bad_parent:
  assumes "all_cells \<subseteq> set (pixels y)" and "(k, r) \<in> set recs"
    and "\<not> parent_ok lineage r"
  shows "valid_loop y lineage all_cells recs = Inr False"
  using assms(1,2)
proof (induction recs arbitrary: all_cells)
  case Nil
  then show ?case by simp
next
  case (Cons rec recs)
  obtain cell_label cell_lineage where rec: "rec = (cell_label, cell_lineage)"
    by (cases rec)
  have sub: "all_cells - {cell_label} \<subseteq> set (pixels y)"
    using Cons.prems(1) by auto
  have ne: "cell_label \<in> all_cells \<Longrightarrow> frames_of y cell_label \<noteq> []"
    using Cons.prems(1) frames_of_nonempty by auto
  show ?case
  proof (cases "(k, r) = rec")
    case True
    then show ?thesis
      using ne assms(3) by (auto simp: rec)
  next
    case False
    then have "(k, r) \<in> set recs"
      using Cons.prems(2) by auto
    then show ?thesis
      using Cons.IH [OF sub] ne by (auto simp: rec)
  qed
qed

lemma parent_ok_fails:
  assumes "parent r = Some p" and "p \<noteq> 0"
    and "map_of lineage p = None \<or>
         (\<exists>pl. map_of lineage p = Some pl \<and>
            (frames pl = [] \<or> frames r = [] \<or> hd (frames r) - last (frames pl) \<noteq> 1))"
  shows "\<not> parent_ok lineage r"
  using assms by (auto simp: parent_ok_def)

subsection \<open>C2: the daughter check reads the working set\<close>

text \<open>
  C2. The claim: a daughter that is in the original set of image IDs and in the lineage
  and starts one frame after its parent ends never fails the daughter check, in whatever
  order the records are iterated. The code tests the daughter against the working set,
  from which every record visited so far has been removed: with the daughter's record
  before the mother's, the same volume and the same records are rejected, while the
  mother-first order is accepted.
\<close>

theorem is_valid_lineage_daughter_order:
  "is_valid_lineage y_division [(2, daughter2), (1, mother)] = Inr False
   \<and> is_valid_lineage y_division [(1, mother), (2, daughter2)] = Inr True"
  by code_simp

subsection \<open>C3: the parent check\<close>

text \<open>
  C3 as stated fails for the parent 0: \<open>if parent:\<close> skips the check for 0 as it does
  for \<open>None\<close>, and a record naming the parent 0, which has no record in the lineage,
  is accepted.
\<close>

theorem is_valid_lineage_parent_zero_counterexample:
  "parent cell_parent0 = Some 0
   \<and> map_of [(1::int, cell_parent0)] 0 = None
   \<and> is_valid_lineage y_single [(1, cell_parent0)] = Inr True"
  by code_simp

text \<open>
  C3, amended. For every label volume and lineage, whenever a record of the lineage
  declares a parent that is neither null nor 0, \<open>is_valid_lineage\<close> returns False if
  that parent has no record in the lineage, or if either of the two frame lists is
  empty, or if the record's first frame minus the parent's last frame is not 1.
\<close>

theorem is_valid_lineage_parent_check:
  assumes "(k, r) \<in> set lineage" and "parent r = Some p" and "p \<noteq> 0"
    and "map_of lineage p = None \<or>
         (\<exists>pl. map_of lineage p = Some pl \<and>
            (frames pl = [] \<or> frames r = [] \<or> hd (frames r) - last (frames pl) \<noteq> 1))"
  shows "is_valid_lineage y lineage = Inr False"
  unfolding is_valid_lineage_def
  by (rule valid_loop_bad_parent [OF all_cells_pixels assms(1) parent_ok_fails [OF assms(2-4)]])

theorem is_valid_lineage_parent_check_witness:
  "(1, cell_parent5) \<in> set [(1, cell_parent5)]
   \<and> parent cell_parent5 = Some 5
   \<and> map_of [(1::int, cell_parent5)] 5 = None
   \<and> is_valid_lineage y_single [(1, cell_parent5)] = Inr False"
  using is_valid_lineage_parent_check [of 1 cell_parent5 "[(1, cell_parent5)]" 5 y_single]
  by (simp add: cell_parent5_def)

subsection \<open>C10: the last frame of the current record\<close>

text \<open>
  C10. The access \<open>cell_lineage['frames'][-1]\<close> is the only place where the validator
  can raise, and it never does: for every label volume and every lineage the validator
  returns a boolean. The access is reached only when the stored frame list equals the
  frames computed from the volume, and those are not empty for an ID of the working set.
\<close>

theorem is_valid_lineage_returns:
  "\<exists>b. is_valid_lineage y lineage = Inr b"
  unfolding is_valid_lineage_def
  by (rule valid_loop_returns [OF all_cells_pixels])

theorem is_valid_lineage_returns_witness:
  "is_valid_lineage y_division [(1, mother), (2, daughter2)] \<noteq> Inl IndexError"
  using is_valid_lineage_returns [of y_division "[(1, mother), (2, daughter2)]"]
  by auto

section \<open>Properties of the relabeler\<close>

lemma index_of_inj:
  assumes "a \<in> set xs" and "b \<in> set xs" and "index_of xs a = index_of xs b"
  shows "a = b"
  using assms by (induction xs) (auto split: if_splits)

lemma set_cell_ids_of: "set (cell_ids_of y) = {c \<in> set (pixels y). c \<noteq> 0}"
  by (auto simp: cell_ids_of_def np_unique_def)

lemma forward_map_zero_iff: "forward_map y v = 0 \<longleftrightarrow> v \<notin> set (cell_ids_of y)"
  by (simp add: forward_map_def)

lemma forward_map_inj:
  assumes "c \<in> set (cell_ids_of y)" and "forward_map y p = forward_map y c"
  shows "p = c"
proof -
  have "forward_map y c \<noteq> 0"
    using assms(1) by (simp add: forward_map_zero_iff)
  then have p: "p \<in> set (cell_ids_of y)"
    using assms(2) forward_map_zero_iff [of y p] by auto
  with assms have "index_of (cell_ids_of y) p = index_of (cell_ids_of y) c"
    by (simp add: forward_map_def)
  then show ?thesis
    using index_of_inj [OF p assms(1)] by simp
qed

lemma frame_pixels_map: "frame_pixels (map (map g) fr) = map g (frame_pixels fr)"
  by (simp add: frame_pixels_def map_concat)

lemma frames_of_relabel:
  assumes "c \<in> set (cell_ids_of y)"
  shows "frames_of (map (map (map (forward_map y))) y) (forward_map y c) = frames_of y c"
proof -
  have "forward_map y c \<in> set (frame_pixels (map (map (forward_map y)) (y ! f)))
        \<longleftrightarrow> c \<in> set (frame_pixels (y ! f))" for f
    using forward_map_inj [OF assms] by (auto simp: frame_pixels_map)
  then have "filter (\<lambda>f. forward_map y c
                 \<in> set (frame_pixels (map (map (map (forward_map y))) y ! f))) [0..<length y]
             = filter (\<lambda>f. c \<in> set (frame_pixels (y ! f))) [0..<length y]"
    by (intro filter_cong) auto
  then show ?thesis
    by (simp add: frames_of_def)
qed

lemma set_update_subset:
  "(a, b) \<in> set (AList.update k v al) \<Longrightarrow> (a, b) = (k, v) \<or> (a, b) \<in> set al"
  by (induction al) (auto split: if_splits)

lemma relabel_loop_entries:
  assumes "relabel_loop y lineage fw ids acc = Inr new_lineage"
    and "(k, r) \<in> set new_lineage"
  shows "(k, r) \<in> set acc \<or> (\<exists>c \<in> set ids. k = fw c \<and> frames r = frames_of y c)"
  using assms
proof (induction ids arbitrary: acc)
  case Nil
  then show ?case by simp
next
  case (Cons cell_id ids)
  from Cons.prems(1) obtain cl new_parent new_daughters
    where cl: "map_of lineage cell_id = Some cl"
      and np: "relabel_parent fw (parent cl) = Inr new_parent"
      and nd: "relabel_daughters fw (daughters cl) = Inr new_daughters"
    by (auto split: option.splits sum.splits)
  define rec where "rec = \<lparr>label = fw cell_id, parent = new_parent,
      daughters = new_daughters, frames = frames_of y cell_id\<rparr>"
  have step: "relabel_loop y lineage fw ids (AList.update (fw cell_id) rec acc) = Inr new_lineage"
    using Cons.prems(1) cl np nd by (simp add: rec_def)
  from Cons.IH [OF step Cons.prems(2)]
  show ?case
  proof
    assume "(k, r) \<in> set (AList.update (fw cell_id) rec acc)"
    then have "(k, r) = (fw cell_id, rec) \<or> (k, r) \<in> set acc"
      by (rule set_update_subset)
    then show ?thesis
      by (auto simp: rec_def)
  next
    assume "\<exists>c \<in> set ids. k = fw c \<and> frames r = frames_of y c"
    then show ?thesis by auto
  qed
qed

lemma relabel_parent_returns:
  "(case p of None \<Rightarrow> True | Some v \<Rightarrow> fits_64 v) \<Longrightarrow> \<exists>new_parent. relabel_parent fw p = Inr new_parent"
  by (cases p) (auto simp: getitem_int_def)

lemma relabel_daughters_returns:
  "list_all fits_64 ds \<Longrightarrow> \<exists>new_daughters. relabel_daughters fw ds = Inr new_daughters"
  by (induction ds) (auto simp: getitem_int_def)

lemma relabel_loop_result:
  assumes "refs_fit_64 lineage"
  shows "((\<forall>c \<in> set ids. map_of lineage c \<noteq> None)
            \<longrightarrow> (\<exists>new_lineage. relabel_loop y lineage fw ids acc = Inr new_lineage))
       \<and> ((\<exists>c \<in> set ids. map_of lineage c = None)
            \<longrightarrow> relabel_loop y lineage fw ids acc = Inl KeyError)"
proof (induction ids arbitrary: acc)
  case Nil
  show ?case by simp
next
  case (Cons cell_id ids)
  show ?case
  proof (cases "map_of lineage cell_id")
    case None
    then show ?thesis by auto
  next
    case (Some cl)
    then have "(cell_id, cl) \<in> set lineage"
      by (rule map_of_SomeD)
    with assms have fit: "(case parent cl of None \<Rightarrow> True | Some p \<Rightarrow> fits_64 p)"
        "list_all fits_64 (daughters cl)"
      by (auto simp: refs_fit_64_def list_all_iff)
    from relabel_parent_returns [OF fit(1)] obtain new_parent
      where np: "relabel_parent fw (parent cl) = Inr new_parent" by blast
    from relabel_daughters_returns [OF fit(2)] obtain new_daughters
      where nd: "relabel_daughters fw (daughters cl) = Inr new_daughters" by blast
    show ?thesis
      using Cons.IH Some by (simp add: np nd)
  qed
qed

lemma frames_of_sorted: "sorted_wrt (<) (frames_of y c)"
  by (simp add: frames_of_def sorted_wrt_map sorted_wrt_filter)

lemma set_frames_of:
  "set (frames_of y c) = {int f |f. f < length y \<and> c \<in> set (frame_pixels (y ! f))}"
  by (auto simp: frames_of_def)

subsection \<open>C4: when the relabeler returns\<close>

text \<open>
  C4 as stated fails. The first volume below holds the one ID that its lineage
  references, cell 1, and the lookup \<open>lineage[cell_id]\<close> for the image's other cell, 2,
  which has no record, raises KeyError. The empty volume with the empty lineage, and
  the volume whose one value is -1 with a record for -1, hold every ID their lineages
  reference and make \<open>relabel_sequential\<close> raise its ValueError. The volume with the
  cell 3 shows what the lookup of a parent in the forward map does when the parent is
  not a 64-bit integer: a TypeError. The last volume holds a value that no integer
  type of NumPy holds, and \<open>relabel_sequential\<close> raises its TypeError.
\<close>

theorem relabel_sequential_lineage_keyerror_counterexample:
  "set (map fst lineage_one) \<subseteq> set (cell_ids_of y_two)
   \<and> relabel_sequential_lineage y_two lineage_one = Inl KeyError
   \<and> relabel_sequential_lineage [] [] = Inl (ValueError EmptyArray)
   \<and> set (map fst lineage_negative) \<subseteq> set (cell_ids_of y_negative)
   \<and> relabel_sequential_lineage y_negative lineage_negative = Inl (ValueError NegativeLabels)
   \<and> map_of lineage_far_parent 3 \<noteq> None
   \<and> relabel_sequential_lineage y_three lineage_far_parent = Inl TypeError
   \<and> set (map fst lineage_far) \<subseteq> set (cell_ids_of y_far)
   \<and> refs_fit_64 lineage_far
   \<and> relabel_sequential_lineage y_far lineage_far = Inl TypeError"
  by code_simp

text \<open>
  C4, amended. \<open>relabel_sequential_lineage\<close> is a function of its two arguments, and it
  returns a result without raising for every label volume with at least one pixel and
  every value from 0 to \<open>2^64 - 1\<close>, and every lineage graph that has a record for every
  non-zero ID of the volume and names only 64-bit integers as parents and daughters.
  Under these conditions no lookup in the forward map fails (a
  label absent from the image is mapped to 0), and the lookup \<open>lineage[cell_id]\<close> is the
  only one that can fail: when some non-zero ID of the volume has no record, the
  function raises KeyError.
\<close>

theorem relabel_sequential_lineage_returns:
  assumes "pixels y \<noteq> []" and "\<forall>p \<in> set (pixels y). 0 \<le> p \<and> p < 2 ^ 64"
    and "refs_fit_64 lineage"
  shows "((\<forall>c \<in> set (pixels y). c \<noteq> 0 \<longrightarrow> map_of lineage c \<noteq> None)
            \<longrightarrow> (\<exists>y_relabel new_lineage.
                  relabel_sequential_lineage y lineage = Inr (y_relabel, new_lineage)))
       \<and> ((\<exists>c \<in> set (pixels y). c \<noteq> 0 \<and> map_of lineage c = None)
            \<longrightarrow> relabel_sequential_lineage y lineage = Inl KeyError)"
proof -
  have neg: "\<not> list_ex (\<lambda>p. p < 0) (pixels y)"
    using assms(2) by (auto simp: list_ex_iff)
  have fit: "\<not> list_ex (\<lambda>p. \<not> fits_64 p) (pixels y)"
    using assms(2) by (auto simp: list_ex_iff fits_64_def)
  have rs: "relabel_sequential y = Inr (map (map (map (forward_map y))) y, forward_map y)"
    using assms(1) neg fit by (simp add: relabel_sequential_def)
  have ids: "(\<forall>c \<in> set (cell_ids_of y). map_of lineage c \<noteq> None)
      \<longleftrightarrow> (\<forall>c \<in> set (pixels y). c \<noteq> 0 \<longrightarrow> map_of lineage c \<noteq> None)"
    by (auto simp: set_cell_ids_of)
  have missing: "(\<exists>c \<in> set (cell_ids_of y). map_of lineage c = None)
      \<longleftrightarrow> (\<exists>c \<in> set (pixels y). c \<noteq> 0 \<and> map_of lineage c = None)"
    by (auto simp: set_cell_ids_of)
  note loop = relabel_loop_result [OF assms(3), of "cell_ids_of y" y "forward_map y" "[]"]
  show ?thesis
  proof (intro conjI impI)
    assume "\<forall>c \<in> set (pixels y). c \<noteq> 0 \<longrightarrow> map_of lineage c \<noteq> None"
    with loop ids obtain new_lineage
      where "relabel_loop y lineage (forward_map y) (cell_ids_of y) [] = Inr new_lineage"
      by blast
    then show "\<exists>y_relabel new_lineage.
        relabel_sequential_lineage y lineage = Inr (y_relabel, new_lineage)"
      by (simp add: relabel_sequential_lineage_def rs)
  next
    assume "\<exists>c \<in> set (pixels y). c \<noteq> 0 \<and> map_of lineage c = None"
    with loop missing
    have "relabel_loop y lineage (forward_map y) (cell_ids_of y) [] = Inl KeyError"
      by blast
    then show "relabel_sequential_lineage y lineage = Inl KeyError"
      by (simp add: relabel_sequential_lineage_def rs)
  qed
qed

theorem relabel_sequential_lineage_returns_witness:
  "pixels y_gap \<noteq> []
   \<and> list_all (\<lambda>p. 0 \<le> p \<and> p < 2 ^ 64) (pixels y_gap)
   \<and> refs_fit_64 lineage_gap
   \<and> list_all (\<lambda>c. c = 0 \<or> map_of lineage_gap c \<noteq> None) (pixels y_gap)
   \<and> (\<exists>y_relabel new_lineage.
         relabel_sequential_lineage y_gap lineage_gap = Inr (y_relabel, new_lineage))
   \<and> pixels y_two \<noteq> []
   \<and> list_all (\<lambda>p. 0 \<le> p \<and> p < 2 ^ 64) (pixels y_two)
   \<and> refs_fit_64 lineage_one
   \<and> list_ex (\<lambda>c. c \<noteq> 0 \<and> map_of lineage_one c = None) (pixels y_two)
   \<and> relabel_sequential_lineage y_two lineage_one = Inl KeyError"
proof -
  have h1: "pixels y_gap \<noteq> []" by code_simp
  have h2: "list_all (\<lambda>p. 0 \<le> p \<and> p < 2 ^ 64) (pixels y_gap)" by code_simp
  have h3: "refs_fit_64 lineage_gap" by code_simp
  have h4: "list_all (\<lambda>c. c = 0 \<or> map_of lineage_gap c \<noteq> None) (pixels y_gap)" by code_simp
  have g1: "pixels y_two \<noteq> []" by code_simp
  have g2: "list_all (\<lambda>p. 0 \<le> p \<and> p < 2 ^ 64) (pixels y_two)" by code_simp
  have g3: "refs_fit_64 lineage_one" by code_simp
  have g4: "list_ex (\<lambda>c. c \<noteq> 0 \<and> map_of lineage_one c = None) (pixels y_two)" by code_simp
  have h2': "\<forall>p \<in> set (pixels y_gap). 0 \<le> p \<and> p < 2 ^ 64"
    using h2 by (simp add: list_all_iff)
  have g2': "\<forall>p \<in> set (pixels y_two). 0 \<le> p \<and> p < 2 ^ 64"
    using g2 by (simp add: list_all_iff)
  have h4': "\<forall>c \<in> set (pixels y_gap). c \<noteq> 0 \<longrightarrow> map_of lineage_gap c \<noteq> None"
    using h4 by (auto simp: list_all_iff)
  have g4': "\<exists>c \<in> set (pixels y_two). c \<noteq> 0 \<and> map_of lineage_one c = None"
    using g4 by (simp add: list_ex_iff)
  show ?thesis
    using h1 h2 h3 h4 g1 g2 g3 g4
      relabel_sequential_lineage_returns [OF h1 h2' h3] h4'
      relabel_sequential_lineage_returns [OF g1 g2' g3] g4'
    by blast
qed

subsection \<open>C5: the frames of the output records\<close>

text \<open>
  C5. Whenever \<open>relabel_sequential_lineage\<close> returns a volume and a lineage, the
  \<open>frames\<close> of every record of the returned lineage are exactly the indices, in
  ascending order, of the frames of the returned volume in which the record's new ID
  is a pixel value; the frame list of the old record plays no part.
\<close>

theorem relabel_sequential_lineage_frames:
  assumes "relabel_sequential_lineage y lineage = Inr (y_relabel, new_lineage)"
    and "(new_id, r) \<in> set new_lineage"
  shows "frames r = frames_of y_relabel new_id
    \<and> sorted_wrt (<) (frames r)
    \<and> set (frames r) =
        {int f |f. f < length y_relabel \<and> new_id \<in> set (frame_pixels (y_relabel ! f))}"
proof -
  from assms(1) have yr: "y_relabel = map (map (map (forward_map y))) y"
    and loop: "relabel_loop y lineage (forward_map y) (cell_ids_of y) [] = Inr new_lineage"
    by (auto simp: relabel_sequential_lineage_def relabel_sequential_def
        split: sum.splits if_splits)
  from relabel_loop_entries [OF loop assms(2)]
  obtain c where c: "c \<in> set (cell_ids_of y)" "new_id = forward_map y c"
      "frames r = frames_of y c"
    by auto
  then have "frames r = frames_of y_relabel new_id"
    using frames_of_relabel [OF c(1)] by (simp add: yr)
  then show ?thesis
    by (simp add: frames_of_sorted set_frames_of)
qed

theorem relabel_sequential_lineage_frames_witness:
  "relabel_sequential_lineage y_gap lineage_gap =
     Inr ([[[0, 1]], [[1, 2]]],
          [(1, \<lparr>label = 1, parent = None, daughters = [2], frames = [0, 1]\<rparr>),
           (2, \<lparr>label = 2, parent = Some 1, daughters = [], frames = [1]\<rparr>)])
   \<and> frames \<lparr>label = 1, parent = None, daughters = [2], frames = [0, 1]\<rparr>
       = frames_of [[[0, 1]], [[1, 2]]] 1"
proof -
  have run: "relabel_sequential_lineage y_gap lineage_gap =
     Inr ([[[0, 1]], [[1, 2]]],
          [(1, \<lparr>label = 1, parent = None, daughters = [2], frames = [0, 1]\<rparr>),
           (2, \<lparr>label = 2, parent = Some 1, daughters = [], frames = [1]\<rparr>)])"
    by code_simp
  show ?thesis
    using run relabel_sequential_lineage_frames [OF run, of 1
        "\<lparr>label = 1, parent = None, daughters = [2], frames = [0, 1]\<rparr>"]
    by simp
qed

section \<open>Properties of the codec\<close>

lemma json_key_error: "json_key k = Inl e \<Longrightarrow> e = TypeError"
  by (cases k) auto

lemma json_encode_error:
  "json_encode v = Inl e \<Longrightarrow> e = TypeError"
  "json_encode_list xs = Inl e \<Longrightarrow> e = TypeError"
  "json_encode_items kvs = Inl e \<Longrightarrow> e = TypeError"
  by (induction v and xs and kvs rule: json_encode_json_encode_list_json_encode_items.induct)
    (auto split: sum.splits dest: json_key_error)

lemma save_track_data_error:
  "save_track_data filename lineages raw tracked lineage_name = Inl e \<Longrightarrow> e = TypeError"
  by (auto simp: save_track_data_def split: sum.splits dest: json_encode_error(1))

subsection \<open>C6: which lineage entry is read\<close>

text \<open>
  C6 as stated fails twice. An archive with both entries is decoded from the batch
  entry \<open>lineages.json\<close>, which is tried first: the archive below yields cell 2 of its
  batch entry, not cell 1 of its single-movie entry, which is what the same archive
  without the batch entry yields. And an archive with neither lineage entry and no
  \<open>raw.npy\<close> raises the KeyError of the missing array entry, not the invalid-container
  error.
\<close>

theorem load_trks_entry_order_counterexample:
  "load_trks archive_both =
     Inr \<lparr>trks_lineages = [PDict [(PInt 2, PDict [])]], trks_X = y_single, trks_y = y_single\<rparr>
   \<and> load_trks archive_single =
     Inr \<lparr>trks_lineages = [PDict [(PInt 1, PDict [])]], trks_X = y_single, trks_y = y_single\<rparr>
   \<and> load_trks ([] :: volume archive) = Inl KeyError"
  by code_simp

text \<open>
  C6, amended. For every archive whose \<open>raw.npy\<close> and \<open>tracked.npy\<close> entries are
  arrays, \<open>load_trks\<close> locates the lineage entry by trying the batch name
  \<open>lineages.json\<close> first and the single-movie name \<open>lineage.json\<close> second: with
  neither entry it raises the invalid-container ValueError; with the batch entry,
  whether or not the single-movie entry is there too, it decodes the batch entry; with
  the single-movie entry alone it decodes that one.
\<close>

theorem load_trks_entry_order:
  assumes "getmember trks ''raw.npy'' = Inr (NpyBlob raw)"
    and "getmember trks ''tracked.npy'' = Inr (NpyBlob tracked)"
  shows "(getmember trks ''lineages.json'' = Inl KeyError
            \<and> getmember trks ''lineage.json'' = Inl KeyError
          \<longrightarrow> load_trks trks = Inl (ValueError NoLineageData))
       \<and> (\<forall>batch. getmember trks ''lineages.json'' = Inr batch
          \<longrightarrow> load_trks trks =
                (case decode_lineages batch of
                   Inl e \<Rightarrow> Inl e
                 | Inr ls \<Rightarrow> Inr \<lparr>trks_lineages = ls, trks_X = raw, trks_y = tracked\<rparr>))
       \<and> (\<forall>single. getmember trks ''lineages.json'' = Inl KeyError
            \<and> getmember trks ''lineage.json'' = Inr single
          \<longrightarrow> load_trks trks =
                (case decode_lineages single of
                   Inl e \<Rightarrow> Inl e
                 | Inr ls \<Rightarrow> Inr \<lparr>trks_lineages = ls, trks_X = raw, trks_y = tracked\<rparr>))"
  using assms by (simp add: load_trks_def lineage_member_def)

theorem load_trks_entry_order_witness:
  "getmember archive_arrays ''raw.npy'' = Inr (NpyBlob y_single)
   \<and> getmember archive_arrays ''tracked.npy'' = Inr (NpyBlob y_single)
   \<and> getmember archive_arrays ''lineages.json'' = Inl KeyError
   \<and> getmember archive_arrays ''lineage.json'' = Inl KeyError
   \<and> load_trks archive_arrays = Inl (ValueError NoLineageData)
   \<and> getmember archive_both ''raw.npy'' = Inr (NpyBlob y_single)
   \<and> getmember archive_both ''tracked.npy'' = Inr (NpyBlob y_single)
   \<and> getmember archive_both ''lineages.json'' = Inr (JsonBlob (JArr [JObj [(''2'', JObj [])]]))
   \<and> load_trks archive_both =
       (case decode_lineages (JsonBlob (JArr [JObj [(''2'', JObj [])]]) :: volume blob) of
          Inl e \<Rightarrow> Inl e
        | Inr ls \<Rightarrow> Inr \<lparr>trks_lineages = ls, trks_X = y_single, trks_y = y_single\<rparr>)"
proof -
  have a1: "getmember archive_arrays ''raw.npy'' = Inr (NpyBlob y_single)" by code_simp
  have a2: "getmember archive_arrays ''tracked.npy'' = Inr (NpyBlob y_single)" by code_simp
  have a3: "getmember archive_arrays ''lineages.json'' = Inl KeyError" by code_simp
  have a4: "getmember archive_arrays ''lineage.json'' = Inl KeyError" by code_simp
  have b1: "getmember archive_both ''raw.npy'' = Inr (NpyBlob y_single)" by code_simp
  have b2: "getmember archive_both ''tracked.npy'' = Inr (NpyBlob y_single)" by code_simp
  have b3: "getmember archive_both ''lineages.json''
      = Inr (JsonBlob (JArr [JObj [(''2'', JObj [])]]))" by code_simp
  show ?thesis
    using load_trks_entry_order [OF a1 a2] load_trks_entry_order [OF b1 b2] a1 a2 a3 a4 b1 b2 b3
    by simp
qed

subsection \<open>C7: the extension checks\<close>

text \<open>
  C7. The usage error of the claim is the ValueError of the extension check, the one
  that lines 221 and 246 raise; what follows the check raises other errors and never
  that one. For every string filename, \<open>save_trk\<close> raises it if and only if the
  filename's extension is not \<open>.trk\<close>, and \<open>save_trks\<close> raises it if and only if the
  extension is not \<open>.trks\<close>. For a BytesIO target neither function compares an
  extension: neither raises that error, and each goes straight on to what follows the
  check.
\<close>

theorem save_extension_check:
  "(save_trk (Path p) lineage raw tracked = Inl (ValueError BadExtension)
      \<longleftrightarrow> splitext_ext p \<noteq> ''.trk'')
   \<and> (save_trks (Path p) lineage raw tracked = Inl (ValueError BadExtension)
      \<longleftrightarrow> splitext_ext p \<noteq> ''.trks'')
   \<and> save_trk BytesIO lineage raw tracked \<noteq> Inl (ValueError BadExtension)
   \<and> save_trks BytesIO lineage raw tracked \<noteq> Inl (ValueError BadExtension)
   \<and> save_trk BytesIO lineage raw tracked =
       (case single_lineage lineage of
          Inl e \<Rightarrow> Inl e
        | Inr l \<Rightarrow> save_track_data BytesIO l raw tracked ''lineage.json'')
   \<and> save_trks BytesIO lineage raw tracked =
       save_track_data BytesIO lineage raw tracked ''lineages.json''"
proof -
  have std: "save_track_data f l raw tracked n \<noteq> Inl (ValueError BadExtension)" for f l n
    using save_track_data_error [of f l raw tracked n "ValueError BadExtension"] by auto
  have single: "single_lineage lineage \<noteq> Inl (ValueError BadExtension)"
    by (auto simp: single_lineage_def split: pyval.splits list.splits)
  have rest: "(case single_lineage lineage of
        Inl e \<Rightarrow> Inl e
      | Inr l \<Rightarrow> save_track_data f l raw tracked ''lineage.json'')
      \<noteq> Inl (ValueError BadExtension)" for f
    using std single by (auto split: sum.splits)
  have c1: "save_trk (Path p) lineage raw tracked = Inl (ValueError BadExtension)
      \<longleftrightarrow> splitext_ext p \<noteq> ''.trk''"
    using rest [of "Path p"] by (simp add: save_trk_def)
  have c2: "save_trks (Path p) lineage raw tracked = Inl (ValueError BadExtension)
      \<longleftrightarrow> splitext_ext p \<noteq> ''.trks''"
    using std by (simp add: save_trks_def)
  have c5: "save_trk BytesIO lineage raw tracked =
      (case single_lineage lineage of
         Inl e \<Rightarrow> Inl e
       | Inr l \<Rightarrow> save_track_data BytesIO l raw tracked ''lineage.json'')"
    by (simp add: save_trk_def)
  have c6: "save_trks BytesIO lineage raw tracked =
      save_track_data BytesIO lineage raw tracked ''lineages.json''"
    by (simp add: save_trks_def)
  have c3: "save_trk BytesIO lineage raw tracked \<noteq> Inl (ValueError BadExtension)"
    using rest [of BytesIO] by (simp add: c5)
  have c4: "save_trks BytesIO lineage raw tracked \<noteq> Inl (ValueError BadExtension)"
    using std by (simp add: c6)
  from c1 c2 c3 c4 c5 c6 show ?thesis
    by blast
qed

theorem save_extension_check_witness:
  "splitext_ext ''movie.trks'' \<noteq> ''.trk''
   \<and> save_trk (Path ''movie.trks'') (PDict []) y_single y_single = Inl (ValueError BadExtension)
   \<and> splitext_ext ''movie.trk'' \<noteq> ''.trks''
   \<and> save_trks (Path ''movie.trk'') (PList [PDict []]) y_single y_single
       = Inl (ValueError BadExtension)
   \<and> splitext_ext ''movie.trk'' = ''.trk''
   \<and> save_trk (Path ''movie.trk'') (PDict []) y_single y_single
       \<noteq> Inl (ValueError BadExtension)"
proof -
  have e1: "splitext_ext ''movie.trks'' \<noteq> ''.trk''" by code_simp
  have e2: "splitext_ext ''movie.trk'' \<noteq> ''.trks''" by code_simp
  have e3: "splitext_ext ''movie.trk'' = ''.trk''" by code_simp
  show ?thesis
    using e1 e2 e3 save_extension_check [of "''movie.trks''" "PDict []" y_single y_single]
      save_extension_check [of "''movie.trk''" "PList [PDict []]" y_single y_single]
      save_extension_check [of "''movie.trk''" "PDict []" y_single y_single]
    by blast
qed

subsection \<open>C9: \<open>save_trk\<close> on the empty list\<close>

text \<open>
  C9 as stated fails for a filename with a wrong extension: the extension check comes
  first and the exception is its ValueError, not an IndexError.
\<close>

theorem save_trk_empty_list_counterexample:
  "save_trk (Path ''movie.trks'') (PList []) y_single y_single = Inl (ValueError BadExtension)"
  by code_simp

text \<open>
  C9, amended. Every call of \<open>save_trk\<close> whose lineage argument is the empty list raises
  an exception and writes no archive: the extension ValueError when the target is a
  filename whose extension is not \<open>.trk\<close>, and otherwise the IndexError of taking the
  first element of the empty list. The empty list is neither normalized to a single
  mapping nor reported as the multi-element usage error.
\<close>

theorem save_trk_empty_list:
  "save_trk filename (PList []) raw tracked =
     (case filename of
        Path p \<Rightarrow>
          if splitext_ext p = ''.trk'' then Inl IndexError else Inl (ValueError BadExtension)
      | BytesIO \<Rightarrow> Inl IndexError)
   \<and> save_trk filename (PList []) raw tracked \<noteq> Inl (ValueError NotSingleLineage)
   \<and> (\<forall>trks. save_trk filename (PList []) raw tracked \<noteq> Inr trks)"
  by (cases filename) (simp_all add: save_trk_def single_lineage_def)

theorem save_trk_empty_list_witness:
  "save_trk BytesIO (PList []) y_single y_single = Inl IndexError
   \<and> save_trk (Path ''movie.trk'') (PList []) y_single y_single = Inl IndexError"
proof -
  have e: "splitext_ext ''movie.trk'' = ''.trk''" by code_simp
  show ?thesis
    using e save_trk_empty_list [of BytesIO y_single y_single]
      save_trk_empty_list [of "Path ''movie.trk''" y_single y_single]
    by simp
qed

subsection \<open>Integer keys through text and back\<close>

lemma is_digit_digit_char: "d < 10 \<Longrightarrow> is_digit (digit_char d)"
  by (simp add: is_digit_def digit_char_def)

lemma digit_val_digit_char: "d < 10 \<Longrightarrow> digit_val (digit_char d) = d"
  by (simp add: digit_val_def digit_char_def)

lemma is_digit_not_sign: "is_digit c \<Longrightarrow> c \<noteq> CHR ''-'' \<and> c \<noteq> CHR ''+'' \<and> \<not> is_space c"
  by (auto simp: is_digit_def is_space_def)

lemma digits_all_digit: "c \<in> set (digits n) \<Longrightarrow> is_digit c"
proof (induction n arbitrary: c rule: digits.induct)
  case (1 n)
  show ?case
  proof (cases "n < 10")
    case True
    with "1.prems" show ?thesis
      by (subst (asm) digits.simps) (simp add: is_digit_digit_char)
  next
    case False
    have "n mod 10 < 10" by simp
    with False "1.prems" "1.IH" show ?thesis
      by (subst (asm) digits.simps) (auto simp: is_digit_digit_char)
  qed
qed

lemma digits_nonempty: "digits n \<noteq> []"
  by (subst digits.simps) simp

lemma parse_digits_snoc:
  assumes "\<forall>c \<in> set ds. is_digit c" and "parse_digits acc ds = Some m" and "is_digit d"
  shows "parse_digits acc (ds @ [d]) = Some (10 * m + digit_val d)"
  using assms by (induction ds arbitrary: acc) auto

lemma parse_digits_digits: "parse_digits 0 (digits n) = Some n"
proof (induction n rule: digits.induct)
  case (1 n)
  show ?case
  proof (cases "n < 10")
    case True
    then show ?thesis
      by (subst digits.simps) (simp add: is_digit_digit_char digit_val_digit_char)
  next
    case False
    have d: "is_digit (digit_char (n mod 10))"
      by (simp add: is_digit_digit_char)
    have "parse_digits 0 (digits (n div 10) @ [digit_char (n mod 10)])
          = Some (10 * (n div 10) + digit_val (digit_char (n mod 10)))"
      using parse_digits_snoc [OF _ "1.IH" [OF False] d] digits_all_digit by blast
    then show ?thesis
      using False by (subst digits.simps) (simp add: digit_val_digit_char)
  qed
qed

lemma parse_nat_digits: "parse_nat (digits n) = Some n"
  using digits_nonempty [of n] digits_all_digit [of "hd (digits n)" n]
  by (simp add: parse_nat_def parse_digits_digits)

lemma strip_id:
  assumes "s \<noteq> []" and "\<not> is_space (hd s)" and "\<not> is_space (last s)"
  shows "strip s = s"
proof -
  have "dropWhile is_space s = s"
    using assms(2) by (simp add: dropWhile_eq_self_iff)
  moreover have "dropWhile is_space (rev s) = rev s"
    using assms(1,3) by (simp add: dropWhile_eq_self_iff hd_rev)
  ultimately show ?thesis
    by (simp add: strip_def)
qed

lemma py_int_py_str_int: "py_int (py_str_int i) = Inr i"
proof -
  let ?n = "if i < 0 then nat (- i) else nat i"
  have ne: "digits ?n \<noteq> []"
    by (rule digits_nonempty)
  have hd: "is_digit (hd (digits ?n))" and last: "is_digit (last (digits ?n))"
    using ne digits_all_digit [of _ ?n] by simp_all
  show ?thesis
  proof (cases "i < 0")
    case True
    have "\<not> is_space CHR ''-''"
      by (simp add: is_space_def)
    then have "strip (CHR ''-'' # digits (nat (- i))) = CHR ''-'' # digits (nat (- i))"
      using ne last True is_digit_not_sign by (intro strip_id) auto
    then show ?thesis
      using True by (simp add: py_int_def py_str_int_def parse_nat_digits)
  next
    case False
    have s: "strip (digits (nat i)) = digits (nat i)"
      using ne hd last False is_digit_not_sign by (intro strip_id) auto
    obtain c cs where ccs: "digits (nat i) = c # cs"
      using ne False by (cases "digits (nat i)") auto
    then have "is_digit c"
      using hd False by simp
    then have c: "c \<noteq> CHR ''-''" "c \<noteq> CHR ''+''"
      using is_digit_not_sign by auto
    have "parse_nat (c # cs) = Some (nat i)"
      using parse_nat_digits [of "nat i"] ccs by simp
    then show ?thesis
      using False s ccs c by (simp add: py_int_def py_str_int_def)
  qed
qed

subsection \<open>Dicts without a repeated key\<close>

lemma update_fresh: "k \<notin> fst ` set al \<Longrightarrow> AList.update k v al = al @ [(k, v)]"
  by (induction al) auto

lemma foldl_update_distinct:
  "distinct (map fst (acc @ kvs))
   \<Longrightarrow> foldl (\<lambda>d (k, v). AList.update k v d) acc kvs = acc @ kvs"
proof (induction kvs arbitrary: acc)
  case Nil
  then show ?case by simp
next
  case (Cons kv kvs)
  obtain k v where kv: "kv = (k, v)" by (cases kv)
  have fresh: "k \<notin> fst ` set acc"
    using Cons.prems by (auto simp: kv)
  have "distinct (map fst ((acc @ [(k, v)]) @ kvs))"
    using Cons.prems by (simp add: kv)
  from Cons.IH [OF this] show ?case
    by (simp add: kv update_fresh [OF fresh])
qed

lemma dict_of_items_distinct: "distinct (map fst kvs) \<Longrightarrow> dict_of_items kvs = kvs"
  using foldl_update_distinct [of "[]" kvs] by (simp add: dict_of_items_def)

subsection \<open>Records and lineages through \<open>json.dump\<close> and \<open>json.loads\<close>\<close>

lemma ints_roundtrip:
  "list_all is_int xs \<Longrightarrow> \<exists>js. json_encode_list xs = Inr js \<and> json_decode_list js = xs"
proof (induction xs)
  case Nil
  then show ?case by simp
next
  case (Cons x xs)
  then obtain i where "x = PInt i"
    by (cases x) auto
  with Cons show ?case by auto
qed

lemma plain_value_roundtrip:
  assumes "plain_value v"
  shows "\<exists>j. json_encode v = Inr j \<and> json_decode j = v"
proof (cases v)
  case (PList xs)
  with assms have "list_all is_int xs" by simp
  from ints_roundtrip [OF this] obtain js
    where "json_encode_list xs = Inr js" "json_decode_list js = xs"
    by auto
  then show ?thesis
    by (simp add: PList)
qed (use assms in auto)

lemma record_items_roundtrip:
  "list_all (\<lambda>(k, v). is_str k \<and> plain_value v) kvs
   \<Longrightarrow> \<exists>ms. json_encode_items kvs = Inr ms \<and> json_decode_items ms = kvs"
proof (induction kvs)
  case Nil
  then show ?case by simp
next
  case (Cons kv kvs)
  obtain k v where kv: "kv = (k, v)" by (cases kv)
  from Cons.prems obtain s where k: "k = PStr s"
    by (cases k) (auto simp: kv)
  from Cons.prems obtain j where j: "json_encode v = Inr j" "json_decode j = v"
    using plain_value_roundtrip [of v] by (auto simp: kv)
  from Cons obtain ms where "json_encode_items kvs = Inr ms" "json_decode_items ms = kvs"
    by auto
  then show ?case
    by (simp add: kv k j)
qed

lemma plain_record_roundtrip:
  assumes "plain_record r"
  shows "\<exists>j. json_encode r = Inr j \<and> json_decode j = r"
proof -
  from assms obtain kvs where r: "r = PDict kvs" and d: "distinct (map fst kvs)"
    and a: "list_all (\<lambda>(k, v). is_str k \<and> plain_value v) kvs"
    by (cases r) auto
  from record_items_roundtrip [OF a] obtain ms
    where "json_encode_items kvs = Inr ms" "json_decode_items ms = kvs"
    by auto
  then show ?thesis
    by (simp add: r dict_of_items_distinct [OF d])
qed

lemma lineage_items_roundtrip:
  "list_all (\<lambda>(k, r). is_int k \<and> plain_record r) kvs
   \<Longrightarrow> \<exists>ms. json_encode_items kvs = Inr ms \<and> rekey_items (json_decode_items ms) = Inr kvs"
proof (induction kvs)
  case Nil
  then show ?case by simp
next
  case (Cons kv kvs)
  obtain k r where kv: "kv = (k, r)" by (cases kv)
  from Cons.prems obtain i where k: "k = PInt i"
    by (cases k) (auto simp: kv)
  from Cons.prems obtain j where j: "json_encode r = Inr j" "json_decode j = r"
    using plain_record_roundtrip [of r] by (auto simp: kv)
  from Cons obtain ms where "json_encode_items kvs = Inr ms"
      "rekey_items (json_decode_items ms) = Inr kvs"
    by auto
  then show ?case
    by (simp add: kv k j py_int_py_str_int)
qed

lemma rekey_items_keys:
  "rekey_items xs = Inr ys
   \<Longrightarrow> map fst ys = map (\<lambda>k. case py_int_of k of Inr i \<Rightarrow> PInt i | Inl e \<Rightarrow> PNone) (map fst xs)"
  by (induction xs arbitrary: ys) (auto split: sum.splits)

lemma rekey_items_distinct:
  assumes "rekey_items xs = Inr ys" and "distinct (map fst ys)"
  shows "distinct (map fst xs)"
proof -
  let ?f = "\<lambda>k. case py_int_of k of Inr i \<Rightarrow> PInt i | Inl e \<Rightarrow> PNone"
  have "distinct (map ?f (map fst xs))"
    using assms(2) by (simp only: rekey_items_keys [OF assms(1)])
  then show ?thesis
    using distinct_map [of ?f "map fst xs"] by blast
qed

lemma lineage_roundtrip:
  assumes "is_lineage l"
  shows "\<exists>j. json_encode l = Inr j \<and> rekey (json_decode j) = Inr l
             \<and> (case json_decode j of PList ls \<Rightarrow> ls | _ \<Rightarrow> [json_decode j]) = [json_decode j]"
proof -
  from assms obtain kvs where l: "l = PDict kvs" and d: "distinct (map fst kvs)"
    and a: "list_all (\<lambda>(k, r). is_int k \<and> plain_record r) kvs"
    by (cases l) auto
  from lineage_items_roundtrip [OF a] obtain ms
    where ms: "json_encode_items kvs = Inr ms" "rekey_items (json_decode_items ms) = Inr kvs"
    by auto
  have "distinct (map fst (json_decode_items ms))"
    using rekey_items_distinct [OF ms(2) d] .
  then have "dict_of_items (json_decode_items ms) = json_decode_items ms"
    by (rule dict_of_items_distinct)
  then show ?thesis
    using ms by (simp add: l dict_of_items_distinct [OF d])
qed

lemma lineages_roundtrip:
  "list_all is_lineage ls
   \<Longrightarrow> \<exists>js. json_encode_list ls = Inr js \<and> rekey_all (json_decode_list js) = Inr ls"
proof (induction ls)
  case Nil
  then show ?case by simp
next
  case (Cons l ls)
  from Cons.prems obtain j where "json_encode l = Inr j" "rekey (json_decode j) = Inr l"
    using lineage_roundtrip [of l] by auto
  moreover from Cons obtain js where "json_encode_list ls = Inr js"
      "rekey_all (json_decode_list js) = Inr ls"
    by auto
  ultimately show ?case by simp
qed

lemma load_saved:
  assumes "json_encode lineages = Inr doc"
    and "lineage_name = ''lineage.json'' \<or> lineage_name = ''lineages.json''"
  shows "save_track_data filename lineages raw tracked lineage_name
           = Inr [(lineage_name, JsonBlob doc), (''raw.npy'', NpyBlob raw),
                  (''tracked.npy'', NpyBlob tracked)]
         \<and> load_trks [(lineage_name, JsonBlob doc), (''raw.npy'', NpyBlob raw),
                      (''tracked.npy'', NpyBlob tracked)]
           = (case rekey_all (case json_decode doc of PList ls \<Rightarrow> ls | _ \<Rightarrow> [json_decode doc]) of
                Inl e \<Rightarrow> Inl e
              | Inr ls \<Rightarrow> Inr \<lparr>trks_lineages = ls, trks_X = raw, trks_y = tracked\<rparr>)"
  using assms
  by (auto simp: save_track_data_def load_trks_def getmember_def lineage_member_def
      decode_lineages_def)

subsection \<open>C1: the round trip\<close>

text \<open>
  C1. For any raw stack, any label stack and any lineage (a dict from integer cell IDs
  to records of integers, \<open>None\<close> and lists of integers), under either entry name,
  \<open>save_track_data\<close> writes an archive, and \<open>load_trks\<close> on that archive returns the
  two arrays as they were and the lineage with its integer keys and every record as it
  was, as the one element of the list of lineages. The same holds for a list of such
  lineages, which is returned as the list it was.
\<close>

theorem save_load_roundtrip:
  assumes "lineage_name = ''lineage.json'' \<or> lineage_name = ''lineages.json''"
  shows "(is_lineage lineage \<longrightarrow>
            (\<exists>trks. save_track_data filename lineage raw tracked lineage_name = Inr trks
               \<and> load_trks trks
                   = Inr \<lparr>trks_lineages = [lineage], trks_X = raw, trks_y = tracked\<rparr>))
       \<and> (list_all is_lineage lineages \<longrightarrow>
            (\<exists>trks. save_track_data filename (PList lineages) raw tracked lineage_name = Inr trks
               \<and> load_trks trks
                   = Inr \<lparr>trks_lineages = lineages, trks_X = raw, trks_y = tracked\<rparr>))"
proof (intro conjI impI)
  assume "is_lineage lineage"
  from lineage_roundtrip [OF this] obtain j where j: "json_encode lineage = Inr j"
      "rekey (json_decode j) = Inr lineage"
      "(case json_decode j of PList ls \<Rightarrow> ls | _ \<Rightarrow> [json_decode j]) = [json_decode j]"
    by auto
  show "\<exists>trks. save_track_data filename lineage raw tracked lineage_name = Inr trks
      \<and> load_trks trks = Inr \<lparr>trks_lineages = [lineage], trks_X = raw, trks_y = tracked\<rparr>"
    using load_saved [OF j(1) assms, of filename raw tracked] j(2,3) by simp
next
  assume "list_all is_lineage lineages"
  from lineages_roundtrip [OF this] obtain js where js: "json_encode_list lineages = Inr js"
      "rekey_all (json_decode_list js) = Inr lineages"
    by auto
  have enc: "json_encode (PList lineages) = Inr (JArr js)"
    using js(1) by simp
  show "\<exists>trks. save_track_data filename (PList lineages) raw tracked lineage_name = Inr trks
      \<and> load_trks trks = Inr \<lparr>trks_lineages = lineages, trks_X = raw, trks_y = tracked\<rparr>"
    using load_saved [OF enc assms, of filename raw tracked] js(2) by simp
qed

theorem save_load_roundtrip_witness:
  "is_lineage lineage_division
   \<and> (\<exists>trks. save_track_data BytesIO lineage_division y_division y_division ''lineage.json''
               = Inr trks
         \<and> load_trks trks
             = Inr \<lparr>trks_lineages = [lineage_division], trks_X = y_division, trks_y = y_division\<rparr>)
   \<and> list_all is_lineage [lineage_division, PDict []]
   \<and> (\<exists>trks. save_track_data BytesIO (PList [lineage_division, PDict []]) y_division y_division
                 ''lineages.json'' = Inr trks
         \<and> load_trks trks
             = Inr \<lparr>trks_lineages = [lineage_division, PDict []], trks_X = y_division,
                    trks_y = y_division\<rparr>)"
proof -
  have l: "is_lineage lineage_division" by code_simp
  have ls: "list_all is_lineage [lineage_division, PDict []]" by code_simp
  show ?thesis
    using l ls
      save_load_roundtrip [of "''lineage.json''" lineage_division BytesIO y_division y_division]
      save_load_roundtrip [of "''lineages.json''" _ BytesIO y_division y_division
        "[lineage_division, PDict []]"]
    by simp
qed

section \<open>Properties of the file order\<close>

lemma less_token_simps [simp]:
  "Num a < Num b \<longleftrightarrow> a < b"
  "Text s < Text t \<longleftrightarrow> s < t"
  "Num a < Text t"
  "\<not> Text s < Num b"
  by (auto simp: less_token_def)



















subsection \<open>C8: the natural order of the file names\<close>





end
